theory Spec2Isabelle
  imports Main
begin

section \<open>Python values\<close>

text \<open>
  The server handles JSON-shaped Python values only: tool arguments, request payloads and
  response bodies. A dict is an association list in insertion order, as a Python dict keeps
  it. Python's \<open>None\<close> is \<open>JNull\<close>. Numbers are the integers (floats are outside the model).
  Strings are ASCII.
\<close>

datatype json =
    JNull
  | JBool bool
  | JInt int
  | JStr string
  | JArr "json list"
  | JObj "(string \<times> json) list"

text \<open>Python truthiness, as \<open>if x:\<close>, \<open>not x\<close> and \<open>x or y\<close> test it.\<close>

fun truthy :: "json \<Rightarrow> bool" where
  "truthy JNull = False"
| "truthy (JBool b) = b"
| "truthy (JInt n) = (n \<noteq> 0)"
| "truthy (JStr s) = (s \<noteq> [])"
| "truthy (JArr xs) = (xs \<noteq> [])"
| "truthy (JObj kvs) = (kvs \<noteq> [])"

definition py_or :: "json \<Rightarrow> json \<Rightarrow> json" where
  "py_or a b = (if truthy a then a else b)"

text \<open>The exceptions that occur, each with the message \<open>str(e)\<close> gives.
  \<open>RequestException\<close> stands for \<open>requests.exceptions.RequestException\<close> and all its
  subclasses (connection errors, timeouts, and \<open>HTTPError\<close>, which \<open>raise_for_status\<close>
  raises). \<open>BaseExceptionOnly\<close> stands for what is not an \<open>Exception\<close>
  (\<open>KeyboardInterrupt\<close>, \<open>SystemExit\<close>): \<open>except Exception\<close> lets it pass.\<close>

datatype exn =
    RequestException string
  | ValueError string
  | KeyError string
  | TypeError string
  | AttributeError string
  | NotionAPIError string
  | NotionAuthError string
  | OtherException string
  | BaseExceptionOnly string

fun is_RequestException :: "exn \<Rightarrow> bool" where
  "is_RequestException (RequestException m) = True"
| "is_RequestException e = False"

fun is_Exception :: "exn \<Rightarrow> bool" where
  "is_Exception (BaseExceptionOnly m) = False"
| "is_Exception e = True"

text \<open>\<open>str(e)\<close>. A \<open>KeyError\<close> prints the \<open>repr\<close> of its key; the keys looked up in this
  program are fixed identifiers, whose \<open>repr\<close> is the key in single quotes.\<close>

fun str_exn :: "exn \<Rightarrow> string" where
  "str_exn (RequestException m) = m"
| "str_exn (ValueError m) = m"
| "str_exn (KeyError k) = [CHR 0x27] @ k @ [CHR 0x27]"
| "str_exn (TypeError m) = m"
| "str_exn (AttributeError m) = m"
| "str_exn (NotionAPIError m) = m"
| "str_exn (NotionAuthError m) = m"
| "str_exn (OtherException m) = m"
| "str_exn (BaseExceptionOnly m) = m"

text \<open>The two library renderings the program uses and this development leaves open:
  \<open>json.dumps(v, indent=2)\<close> and \<open>str(v)\<close> for numbers, lists and dicts.\<close>

record pylib =
  dumps :: "json \<Rightarrow> string"
  str_other :: "json \<Rightarrow> string"

text \<open>An f-string field \<open>{v}\<close>.\<close>

fun py_format :: "pylib \<Rightarrow> json \<Rightarrow> string" where
  "py_format lib (JStr s) = s"
| "py_format lib JNull = ''None''"
| "py_format lib (JBool b) = (if b then ''True'' else ''False'')"
| "py_format lib v = str_other lib v"

text \<open>The name of a value's type in a \<open>TypeError\<close> message.\<close>

fun type_name :: "json \<Rightarrow> string" where
  "type_name JNull = ''NoneType''"
| "type_name (JBool b) = ''bool''"
| "type_name (JInt n) = ''int''"
| "type_name (JStr s) = ''str''"
| "type_name (JArr xs) = ''list''"
| "type_name (JObj kvs) = ''dict''"

text \<open>\<open>min(v, 100)\<close>: the first argument unless \<open>100 < v\<close>; the comparison raises on a
  value that is not a number.\<close>

fun py_min_100 :: "json \<Rightarrow> exn + json" where
  "py_min_100 (JInt n) = Inr (if 100 < n then JInt 100 else JInt n)"
| "py_min_100 (JBool b) = Inr (JBool b)"
| "py_min_100 v = Inl (TypeError
     (''<'' @ [CHR 0x27] @ '' not supported between instances of ''
      @ [CHR 0x27] @ ''int'' @ [CHR 0x27] @ '' and '' @ [CHR 0x27] @ type_name v @ [CHR 0x27]))"

text \<open>\<open>d[k] = v\<close> on a dict: the value is replaced in place, or the key is appended.\<close>

fun dict_set :: "(string \<times> json) list \<Rightarrow> string \<Rightarrow> json \<Rightarrow> (string \<times> json) list" where
  "dict_set [] k v = [(k, v)]"
| "dict_set ((k', v') # d) k v = (if k' = k then (k, v) # d else (k', v') # dict_set d k v)"

section \<open>The HTTP layer\<close>

text \<open>What one call of \<open>requests.get/post/patch/delete\<close> sends.\<close>

record http_request =
  verb :: string
  url :: string
  headers :: "(string \<times> string) list"
  json_body :: "(string \<times> json) list option"
  params :: "(string \<times> json) list option"

text \<open>The \<open>Retry-After\<close> header under \<open>int(response.headers.get('Retry-After', 1))\<close>:
  absent, a text that \<open>int\<close> reads as a number, or a text on which \<open>int\<close> raises.\<close>

datatype retry_after = Absent | Seconds int | NotANumber string

text \<open>A response: \<open>error_text\<close> is the message of the \<open>HTTPError\<close> that
  \<open>raise_for_status\<close> raises for it, \<open>content_empty\<close> says that \<open>response.content\<close> is
  empty, \<open>json_result\<close> is what \<open>response.json()\<close> returns or raises.\<close>

record response =
  status_code :: int
  retry_after_hdr :: retry_after
  error_text :: string
  content_empty :: bool
  json_result :: "exn + json"

text \<open>One call to the network either raises or responds.\<close>

datatype outcome = Raises exn | Responds response

text \<open>What the program does that is visible outside: entering a client method (kept so that
  "no client method is invoked" is a statement about the trace), an HTTP call, a sleep.\<close>

datatype event = Invoke string | Http http_request | Sleep int

text \<open>The requests a trace holds, in the order they were sent.\<close>

fun sent :: "event list \<Rightarrow> http_request list" where
  "sent [] = []"
| "sent (Http r # es) = r # sent es"
| "sent (e # es) = sent es"

text \<open>\<open>response.raise_for_status()\<close> of the requests library raises \<open>HTTPError\<close> for
  a status from 400 to 599 and nothing otherwise.\<close>

definition raise_for_status :: "response \<Rightarrow> exn + unit" where
  "raise_for_status r =
     (if 400 \<le> status_code r \<and> status_code r < 600
      then Inl (RequestException (error_text r)) else Inr ())"

text \<open>\<open>time.sleep(n)\<close> raises on a negative length.\<close>

definition time_sleep :: "int \<Rightarrow> exn + event" where
  "time_sleep n =
     (if n < 0 then Inl (ValueError ''sleep length must be non-negative'') else Inr (Sleep n))"

text \<open>\<open>s.upper()\<close> and \<open>s.lstrip('/')\<close> on ASCII strings.\<close>

definition upper_char :: "char \<Rightarrow> char" where
  "upper_char c =
     (if (97::nat) \<le> of_char c \<and> of_char c \<le> (122::nat)
      then char_of (of_char c - (32::nat)) else c)"

definition upper :: "string \<Rightarrow> string" where
  "upper s = map upper_char s"

definition lstrip_slash :: "string \<Rightarrow> string" where
  "lstrip_slash s = dropWhile (\<lambda>c. c = CHR ''/'') s"

section \<open>The client\<close>

record notion_client =
  notion_version :: string
  base_url :: string
  nango_connection_id :: json
  nango_provider_config_key :: json
  auth_token :: json
  client_headers :: "(string \<times> string) list"

definition max_retries :: nat where
  "max_retries = 3"

text \<open>The \<open>if/elif\<close> chain on \<open>method.upper()\<close> in \<open>_make_request\<close>: the request that is
  sent, or the \<open>ValueError\<close>.\<close>

definition build_request ::
  "notion_client \<Rightarrow> string \<Rightarrow> string \<Rightarrow> (string \<times> json) list option \<Rightarrow>
   (string \<times> json) list option \<Rightarrow> exn + http_request" where
  "build_request c method u data ps =
     (if upper method = ''GET'' then
        Inr \<lparr>verb = ''GET'', url = u, headers = client_headers c, json_body = None, params = ps\<rparr>
      else if upper method = ''POST'' then
        Inr \<lparr>verb = ''POST'', url = u, headers = client_headers c, json_body = data, params = None\<rparr>
      else if upper method = ''PATCH'' then
        Inr \<lparr>verb = ''PATCH'', url = u, headers = client_headers c, json_body = data, params = None\<rparr>
      else if upper method = ''DELETE'' then
        Inr \<lparr>verb = ''DELETE'', url = u, headers = client_headers c, json_body = None, params = None\<rparr>
      else Inl (ValueError (''Unsupported HTTP method: '' @ method)))"

text \<open>What the body of the \<open>try\<close> does with a response: \<open>continue\<close> after the sleep on a
  429, the \<open>HTTPError\<close> on a 4xx or 5xx, the parsed body otherwise.\<close>

datatype step = Return json | Continue | Raise exn

definition on_response :: "response \<Rightarrow> step \<times> event list" where
  "on_response r =
     (if status_code r = 429 then
        (case retry_after_hdr r of
           NotANumber s \<Rightarrow> (Raise (ValueError (''invalid literal for int() with base 10: '' @ s)), [])
         | Absent \<Rightarrow>
             (case time_sleep 1 of Inl e \<Rightarrow> (Raise e, []) | Inr ev \<Rightarrow> (Continue, [ev]))
         | Seconds n \<Rightarrow>
             (case time_sleep n of Inl e \<Rightarrow> (Raise e, []) | Inr ev \<Rightarrow> (Continue, [ev])))
      else
        (case raise_for_status r of
           Inl e \<Rightarrow> (Raise e, [])
         | Inr u \<Rightarrow>
             (if \<not> content_empty r then
                (case json_result r of Inl e \<Rightarrow> (Raise e, []) | Inr j \<Rightarrow> (Return j, []))
              else (Return (JObj []), []))))"

text \<open>
  The \<open>while\<close> loop of \<open>_make_request\<close>. The loop need not end, so it runs on fuel: one
  unit for each iteration, and \<open>None\<close> when the fuel is gone before the loop has left.
  \<open>net i\<close> is the outcome of the \<open>i\<close>-th HTTP call of this request (from 0),
  \<open>retry_count\<close> is the loop's counter, \<open>tr\<close> the trace so far. A loop that leaves by its
  condition falls off the end of the method, which returns \<open>None\<close>.
\<close>

definition try_body :: "outcome \<Rightarrow> step \<times> event list" where
  "try_body out = (case out of Raises e \<Rightarrow> (Raise e, []) | Responds r \<Rightarrow> on_response r)"

fun request_loop ::
  "nat \<Rightarrow> (nat \<Rightarrow> outcome) \<Rightarrow> notion_client \<Rightarrow> string \<Rightarrow> string \<Rightarrow>
   (string \<times> json) list option \<Rightarrow> (string \<times> json) list option \<Rightarrow>
   nat \<Rightarrow> nat \<Rightarrow> event list \<Rightarrow> (exn + json) option \<times> event list" where
  "request_loop 0 net c method u data ps retry_count i tr = (None, tr)"
| "request_loop (Suc fuel) net c method u data ps retry_count i tr =
     (if retry_count < max_retries then
        (case build_request c method u data ps of
           Inl e \<Rightarrow> (Some (Inl e), tr)
         | Inr req \<Rightarrow>
             (case try_body (net i) of
                (Return j, evs) \<Rightarrow> (Some (Inr j), tr @ Http req # evs)
              | (Continue, evs) \<Rightarrow>
                  request_loop fuel net c method u data ps retry_count (i + 1)
                    (tr @ Http req # evs)
              | (Raise e, evs) \<Rightarrow>
                  (if is_RequestException e then
                     (if retry_count = max_retries - 1 then
                        (Some (Inl (NotionAPIError
                           (''API request failed after 3 retries: '' @ str_exn e))),
                         tr @ Http req # evs)
                      else request_loop fuel net c method u data ps (retry_count + 1) (i + 1)
                             (tr @ Http req # evs @ [Sleep 1]))
                   else (Some (Inl e), tr @ Http req # evs))))
      else (Some (Inr JNull), tr))"

text \<open>\<open>url = f"{self.base_url}/{endpoint.lstrip('/')}"\<close>.\<close>

definition request_url :: "notion_client \<Rightarrow> string \<Rightarrow> string" where
  "request_url c endpoint = base_url c @ ''/'' @ lstrip_slash endpoint"

definition make_request ::
  "nat \<Rightarrow> (nat \<Rightarrow> outcome) \<Rightarrow> notion_client \<Rightarrow> string \<Rightarrow> string \<Rightarrow>
   (string \<times> json) list option \<Rightarrow> (string \<times> json) list option \<Rightarrow>
   (exn + json) option \<times> event list" where
  "make_request fuel net c method endpoint data ps =
     request_loop fuel net c method (request_url c endpoint) data ps 0 0 []"

section \<open>The client's operations\<close>

type_synonym result = "(exn + json) option \<times> event list"

definition invoke :: "string \<Rightarrow> result \<Rightarrow> result" where
  "invoke m r = (fst r, Invoke m # snd r)"

text \<open>An exception raised in a method before it reaches \<open>_make_request\<close>.\<close>

definition raising :: "exn \<Rightarrow> result" where
  "raising e = (Some (Inl e), [])"

definition get_database :: "pylib \<Rightarrow> nat \<Rightarrow> (nat \<Rightarrow> outcome) \<Rightarrow> notion_client \<Rightarrow> json \<Rightarrow> result" where
  "get_database lib fuel net c database_id =
     invoke ''get_database''
       (make_request fuel net c ''GET'' (''databases/'' @ py_format lib database_id) None None)"

text \<open>The payload of \<open>query_database\<close>, key by key as the method fills \<open>data\<close>.\<close>

definition query_database_data :: "json \<Rightarrow> json \<Rightarrow> json \<Rightarrow> json \<Rightarrow> exn + (string \<times> json) list" where
  "query_database_data filter_criteria sorts start_cursor page_size =
     (let data = [];
          data = (if truthy filter_criteria then dict_set data ''filter'' filter_criteria else data);
          data = (if truthy sorts then dict_set data ''sorts'' sorts else data);
          data = (if truthy start_cursor then dict_set data ''start_cursor'' start_cursor else data)
      in if truthy page_size then
           (case py_min_100 page_size of
              Inl e \<Rightarrow> Inl e
            | Inr v \<Rightarrow> Inr (dict_set data ''page_size'' v))
         else Inr data)"

definition query_database ::
  "pylib \<Rightarrow> nat \<Rightarrow> (nat \<Rightarrow> outcome) \<Rightarrow> notion_client \<Rightarrow> json \<Rightarrow> json \<Rightarrow> json \<Rightarrow> json \<Rightarrow> json \<Rightarrow> result" where
  "query_database lib fuel net c database_id filter_criteria sorts start_cursor page_size =
     invoke ''query_database''
       (case query_database_data filter_criteria sorts start_cursor page_size of
          Inl e \<Rightarrow> raising e
        | Inr data \<Rightarrow>
            make_request fuel net c ''POST''
              (''databases/'' @ py_format lib database_id @ ''/query'') (Some data) None)"

definition create_database ::
  "pylib \<Rightarrow> nat \<Rightarrow> (nat \<Rightarrow> outcome) \<Rightarrow> notion_client \<Rightarrow> json \<Rightarrow> json \<Rightarrow> json \<Rightarrow> result" where
  "create_database lib fuel net c parent title properties =
     invoke ''create_database''
       (make_request fuel net c ''POST'' ''databases''
          (Some [(''parent'', parent),
                 (''title'', JArr [JObj [(''type'', JStr ''text''),
                                         (''text'', JObj [(''content'', title)])]]),
                 (''properties'', properties)]) None)"

definition get_page :: "pylib \<Rightarrow> nat \<Rightarrow> (nat \<Rightarrow> outcome) \<Rightarrow> notion_client \<Rightarrow> json \<Rightarrow> result" where
  "get_page lib fuel net c page_id =
     invoke ''get_page''
       (make_request fuel net c ''GET'' (''pages/'' @ py_format lib page_id) None None)"

definition create_page_data :: "json \<Rightarrow> json \<Rightarrow> json \<Rightarrow> (string \<times> json) list" where
  "create_page_data parent properties children =
     (let data = [(''parent'', parent), (''properties'', properties)]
      in if truthy children then dict_set data ''children'' children else data)"

definition create_page ::
  "pylib \<Rightarrow> nat \<Rightarrow> (nat \<Rightarrow> outcome) \<Rightarrow> notion_client \<Rightarrow> json \<Rightarrow> json \<Rightarrow> json \<Rightarrow> result" where
  "create_page lib fuel net c parent properties children =
     invoke ''create_page''
       (make_request fuel net c ''POST'' ''pages''
          (Some (create_page_data parent properties children)) None)"

definition update_page_data :: "json \<Rightarrow> json \<Rightarrow> (string \<times> json) list" where
  "update_page_data properties archived =
     (let data = [(''properties'', properties)]
      in if archived \<noteq> JNull then dict_set data ''archived'' archived else data)"

definition update_page ::
  "pylib \<Rightarrow> nat \<Rightarrow> (nat \<Rightarrow> outcome) \<Rightarrow> notion_client \<Rightarrow> json \<Rightarrow> json \<Rightarrow> json \<Rightarrow> result" where
  "update_page lib fuel net c page_id properties archived =
     invoke ''update_page''
       (make_request fuel net c ''PATCH'' (''pages/'' @ py_format lib page_id)
          (Some (update_page_data properties archived)) None)"

definition get_block_children_params :: "json \<Rightarrow> json \<Rightarrow> exn + (string \<times> json) list" where
  "get_block_children_params start_cursor page_size =
     (let ps = [];
          ps = (if truthy start_cursor then dict_set ps ''start_cursor'' start_cursor else ps)
      in if truthy page_size then
           (case py_min_100 page_size of
              Inl e \<Rightarrow> Inl e
            | Inr v \<Rightarrow> Inr (dict_set ps ''page_size'' v))
         else Inr ps)"

definition get_block_children ::
  "pylib \<Rightarrow> nat \<Rightarrow> (nat \<Rightarrow> outcome) \<Rightarrow> notion_client \<Rightarrow> json \<Rightarrow> json \<Rightarrow> json \<Rightarrow> result" where
  "get_block_children lib fuel net c block_id start_cursor page_size =
     invoke ''get_block_children''
       (case get_block_children_params start_cursor page_size of
          Inl e \<Rightarrow> raising e
        | Inr ps \<Rightarrow>
            make_request fuel net c ''GET''
              (''blocks/'' @ py_format lib block_id @ ''/children'') None (Some ps))"

definition append_block_children ::
  "pylib \<Rightarrow> nat \<Rightarrow> (nat \<Rightarrow> outcome) \<Rightarrow> notion_client \<Rightarrow> json \<Rightarrow> json \<Rightarrow> result" where
  "append_block_children lib fuel net c block_id children =
     invoke ''append_block_children''
       (make_request fuel net c ''PATCH''
          (''blocks/'' @ py_format lib block_id @ ''/children'')
          (Some [(''children'', children)]) None)"

definition search_data :: "json \<Rightarrow> json \<Rightarrow> json \<Rightarrow> json \<Rightarrow> json \<Rightarrow> exn + (string \<times> json) list" where
  "search_data query filter_criteria sorts start_cursor page_size =
     (let data = [];
          data = (if truthy query then dict_set data ''query'' query else data);
          data = (if truthy filter_criteria then dict_set data ''filter'' filter_criteria else data);
          data = (if truthy sorts then dict_set data ''sorts'' sorts else data);
          data = (if truthy start_cursor then dict_set data ''start_cursor'' start_cursor else data)
      in if truthy page_size then
           (case py_min_100 page_size of
              Inl e \<Rightarrow> Inl e
            | Inr v \<Rightarrow> Inr (dict_set data ''page_size'' v))
         else Inr data)"

definition search ::
  "pylib \<Rightarrow> nat \<Rightarrow> (nat \<Rightarrow> outcome) \<Rightarrow> notion_client \<Rightarrow> json \<Rightarrow> json \<Rightarrow> json \<Rightarrow> json \<Rightarrow> json \<Rightarrow> result" where
  "search lib fuel net c query filter_criteria sorts start_cursor page_size =
     invoke ''search''
       (case search_data query filter_criteria sorts start_cursor page_size of
          Inl e \<Rightarrow> raising e
        | Inr data \<Rightarrow> make_request fuel net c ''POST'' ''search'' (Some data) None)"

definition get_current_user :: "pylib \<Rightarrow> nat \<Rightarrow> (nat \<Rightarrow> outcome) \<Rightarrow> notion_client \<Rightarrow> result" where
  "get_current_user lib fuel net c =
     invoke ''get_current_user'' (make_request fuel net c ''GET'' ''users/me'' None None)"

section \<open>Credentials\<close>

definition os_environ_get :: "(string \<rightharpoonup> string) \<Rightarrow> string \<Rightarrow> json" where
  "os_environ_get env k = (case env k of None \<Rightarrow> JNull | Some s \<Rightarrow> JStr s)"

text \<open>\<open>sub in s\<close> on strings.\<close>

fun is_prefix :: "string \<Rightarrow> string \<Rightarrow> bool" where
  "is_prefix [] ys = True"
| "is_prefix (x # xs) [] = False"
| "is_prefix (x # xs) (y # ys) = (x = y \<and> is_prefix xs ys)"

fun str_contains :: "string \<Rightarrow> string \<Rightarrow> bool" where
  "str_contains [] sub = (sub = [])"
| "str_contains (c # cs) sub = (is_prefix sub (c # cs) \<or> str_contains cs sub)"

text \<open>\<open>k in v\<close>, \<open>v[k]\<close> and \<open>v.get(k)\<close> for a string key \<open>k\<close> and whatever value the
  broker's JSON turned out to be.\<close>

definition not_iterable :: "json \<Rightarrow> exn" where
  "not_iterable v = TypeError (''argument of type '' @ [CHR 0x27] @ type_name v @ [CHR 0x27]
     @ '' is not iterable'')"

fun py_in :: "string \<Rightarrow> json \<Rightarrow> exn + bool" where
  "py_in k (JObj kvs) = Inr (k \<in> set (map fst kvs))"
| "py_in k (JArr xs) = Inr (JStr k \<in> set xs)"
| "py_in k (JStr s) = Inr (str_contains s k)"
| "py_in k v = Inl (not_iterable v)"

fun py_getitem :: "json \<Rightarrow> string \<Rightarrow> exn + json" where
  "py_getitem (JObj kvs) k = (case map_of kvs k of None \<Rightarrow> Inl (KeyError k) | Some v \<Rightarrow> Inr v)"
| "py_getitem (JArr xs) k = Inl (TypeError ''list indices must be integers or slices, not str'')"
| "py_getitem (JStr s) k = Inl (TypeError ''string indices must be integers'')"
| "py_getitem v k = Inl (TypeError ([CHR 0x27] @ type_name v @ [CHR 0x27]
     @ '' object is not subscriptable''))"

fun py_get :: "json \<Rightarrow> string \<Rightarrow> exn + json" where
  "py_get (JObj kvs) k = (case map_of kvs k of None \<Rightarrow> Inr JNull | Some v \<Rightarrow> Inr v)"
| "py_get v k = Inl (AttributeError ([CHR 0x27] @ type_name v @ [CHR 0x27]
     @ '' object has no attribute '' @ [CHR 0x27] @ ''get'' @ [CHR 0x27]))"

text \<open>\<open>get_connection_credentials\<close>: \<open>env\<close> is the process environment, \<open>broker\<close> the
  outcome of the one HTTP call to the broker.\<close>

definition get_connection_credentials ::
  "pylib \<Rightarrow> (string \<rightharpoonup> string) \<Rightarrow> outcome \<Rightarrow> json \<Rightarrow> json \<Rightarrow> (exn + json) \<times> event list" where
  "get_connection_credentials lib env broker ident providerConfigKey =
     (let base = os_environ_get env ''NANGO_BASE_URL'';
          secret_key = os_environ_get env ''NANGO_SECRET_KEY''
      in if \<not> truthy base \<or> \<not> truthy secret_key then
           (Inl (NotionAuthError
              ''NANGO_BASE_URL and NANGO_SECRET_KEY environment variables must be set''), [])
         else
           (let req = \<lparr>verb = ''GET'',
                       url = py_format lib base @ ''/connection/'' @ py_format lib ident,
                       headers = [(''Authorization'', ''Bearer '' @ py_format lib secret_key)],
                       json_body = None,
                       params = Some [(''provider_config_key'', providerConfigKey),
                                      (''refresh_token'', JStr ''true'')]\<rparr>
            in case broker of
                 Raises e \<Rightarrow> (Inl e, [Http req])
               | Responds r \<Rightarrow>
                   (case raise_for_status r of
                      Inl e \<Rightarrow> (Inl e, [Http req])
                    | Inr u \<Rightarrow> (json_result r, [Http req]))))"

text \<open>The body of the \<open>try\<close> in \<open>_get_nango_token\<close>, once the credentials are there.\<close>

definition token_of_credentials :: "json \<Rightarrow> exn + json" where
  "token_of_credentials credentials =
     (case py_in ''credentials'' credentials of
        Inl e \<Rightarrow> Inl e
      | Inr True \<Rightarrow>
          (case py_getitem credentials ''credentials'' of
             Inl e \<Rightarrow> Inl e
           | Inr inner \<Rightarrow> py_get inner ''access_token'')
      | Inr False \<Rightarrow>
          (case py_in ''access_token'' credentials of
             Inl e \<Rightarrow> Inl e
           | Inr True \<Rightarrow> py_getitem credentials ''access_token''
           | Inr False \<Rightarrow>
               Inl (NotionAuthError ''No access token found in Nango credentials response'')))"

text \<open>\<open>except Exception as e: raise NotionAuthError(...)\<close>.\<close>

definition wrap_auth_error :: "exn \<Rightarrow> exn" where
  "wrap_auth_error e =
     (if is_Exception e
      then NotionAuthError (''Failed to get credentials from Nango: '' @ str_exn e) else e)"

definition get_nango_token ::
  "pylib \<Rightarrow> (string \<rightharpoonup> string) \<Rightarrow> outcome \<Rightarrow> json \<Rightarrow> json \<Rightarrow> (exn + json) \<times> event list" where
  "get_nango_token lib env broker connection_id provider_config_key =
     (case get_connection_credentials lib env broker connection_id provider_config_key of
        (Inl e, tr) \<Rightarrow> (Inl (wrap_auth_error e), tr)
      | (Inr credentials, tr) \<Rightarrow>
          (case token_of_credentials credentials of
             Inl e \<Rightarrow> (Inl (wrap_auth_error e), tr)
           | Inr token \<Rightarrow> (Inr token, tr)))"

text \<open>\<open>NotionClient.__init__\<close>: the client, or the exception, with the trace of the
  network calls made on the way.\<close>

definition new_client :: "pylib \<Rightarrow> string \<Rightarrow> json \<Rightarrow> json \<Rightarrow> json \<Rightarrow> notion_client" where
  "new_client lib version connection_id provider_config_key token =
     \<lparr>notion_version = version,
      base_url = ''https://api.notion.com/v1'',
      nango_connection_id = connection_id,
      nango_provider_config_key = provider_config_key,
      auth_token = token,
      client_headers = [(''Authorization'', ''Bearer '' @ py_format lib token),
                        (''Notion-Version'', version),
                        (''Content-Type'', ''application/json'')]\<rparr>"

definition NotionClient ::
  "pylib \<Rightarrow> (string \<rightharpoonup> string) \<Rightarrow> outcome \<Rightarrow> json \<Rightarrow> string \<Rightarrow> json \<Rightarrow> json \<Rightarrow>
   (exn + notion_client) \<times> event list" where
  "NotionClient lib env broker token version connection_id provider_config_key =
     (let cid = py_or connection_id (os_environ_get env ''NANGO_CONNECTION_ID'');
          pkey = py_or provider_config_key (os_environ_get env ''NANGO_INTEGRATION_ID'')
      in if truthy token then (Inr (new_client lib version cid pkey token), [])
         else if truthy cid \<and> truthy pkey then
           (case get_nango_token lib env broker cid pkey of
              (Inl e, tr) \<Rightarrow> (Inl e, tr)
            | (Inr fetched, tr) \<Rightarrow> (Inr (new_client lib version cid pkey fetched), tr))
         else
           (Inl (NotionAuthError
              ''Either auth_token or both nango_connection_id and nango_provider_config_key must be provided''),
            []))"

section \<open>The tools and the dispatcher\<close>

text \<open>A tool of \<open>handle_list_tools\<close>: its name, the arguments its schema lists, and the
  required ones (descriptions and argument types are left out).\<close>

record tool =
  tool_name :: string
  tool_properties :: "string list"
  required :: "string list"

definition handle_list_tools :: "tool list" where
  "handle_list_tools =
     [\<lparr>tool_name = ''notion_search'',
       tool_properties = [''query'', ''filter_type'', ''page_size''], required = []\<rparr>,
      \<lparr>tool_name = ''notion_get_database'',
       tool_properties = [''database_id''], required = [''database_id'']\<rparr>,
      \<lparr>tool_name = ''notion_query_database'',
       tool_properties = [''database_id'', ''filter_criteria'', ''sorts'', ''page_size''],
       required = [''database_id'']\<rparr>,
      \<lparr>tool_name = ''notion_create_database'',
       tool_properties = [''parent_page_id'', ''title'', ''properties''],
       required = [''parent_page_id'', ''title'', ''properties'']\<rparr>,
      \<lparr>tool_name = ''notion_get_page'',
       tool_properties = [''page_id''], required = [''page_id'']\<rparr>,
      \<lparr>tool_name = ''notion_create_page'',
       tool_properties = [''parent_type'', ''parent_id'', ''properties'', ''children''],
       required = [''parent_type'', ''parent_id'', ''properties'']\<rparr>,
      \<lparr>tool_name = ''notion_update_page'',
       tool_properties = [''page_id'', ''properties'', ''archived''],
       required = [''page_id'', ''properties'']\<rparr>,
      \<lparr>tool_name = ''notion_get_block_children'',
       tool_properties = [''block_id'', ''page_size''], required = [''block_id'']\<rparr>,
      \<lparr>tool_name = ''notion_append_blocks'',
       tool_properties = [''block_id'', ''children''], required = [''block_id'', ''children'']\<rparr>,
      \<lparr>tool_name = ''notion_get_current_user'',
       tool_properties = [], required = []\<rparr>]"

text \<open>\<open>arguments.get(k)\<close> and \<open>arguments[k]\<close> on the arguments of a call.\<close>

definition arg_get :: "(string \<rightharpoonup> json) \<Rightarrow> string \<Rightarrow> json" where
  "arg_get arguments k = (case arguments k of None \<Rightarrow> JNull | Some v \<Rightarrow> v)"

definition arg_item :: "(string \<rightharpoonup> json) \<Rightarrow> string \<Rightarrow> exn + json" where
  "arg_item arguments k = (case arguments k of None \<Rightarrow> Inl (KeyError k) | Some v \<Rightarrow> Inr v)"

record text_content =
  content_type :: string
  content_text :: string

definition TextContent :: "string \<Rightarrow> text_content" where
  "TextContent t = \<lparr>content_type = ''text'', content_text = t\<rparr>"

type_synonym tool_result = "(exn + text_content list) option \<times> event list"

text \<open>\<open>return [types.TextContent(type="text", text=json.dumps(result, indent=2))]\<close> after a
  client call.\<close>

definition dumped :: "pylib \<Rightarrow> result \<Rightarrow> tool_result" where
  "dumped lib r =
     (case fst r of
        None \<Rightarrow> (None, snd r)
      | Some (Inl e) \<Rightarrow> (Some (Inl e), snd r)
      | Some (Inr j) \<Rightarrow> (Some (Inr [TextContent (dumps lib j)]), snd r))"

definition raised :: "exn \<Rightarrow> tool_result" where
  "raised e = (Some (Inl e), [])"

text \<open>The body of the \<open>try\<close> in \<open>handle_call_tool\<close>.\<close>

definition call_tool_body ::
  "pylib \<Rightarrow> nat \<Rightarrow> (nat \<Rightarrow> outcome) \<Rightarrow> notion_client \<Rightarrow> string \<Rightarrow> (string \<rightharpoonup> json) \<Rightarrow> tool_result" where
  "call_tool_body lib fuel net c name arguments =
     (if name = ''notion_search'' then
        (let query = arg_get arguments ''query'';
             filter_type = arg_get arguments ''filter_type'';
             page_size = arg_get arguments ''page_size'';
             filter_criteria =
               (if truthy filter_type
                then JObj [(''property'', JStr ''object''), (''value'', filter_type)] else JNull)
         in dumped lib (search lib fuel net c query filter_criteria JNull JNull page_size))
      else if name = ''notion_get_database'' then
        (case arg_item arguments ''database_id'' of Inl e \<Rightarrow> raised e | Inr database_id \<Rightarrow>
           dumped lib (get_database lib fuel net c database_id))
      else if name = ''notion_query_database'' then
        (case arg_item arguments ''database_id'' of Inl e \<Rightarrow> raised e | Inr database_id \<Rightarrow>
           (let filter_criteria = arg_get arguments ''filter_criteria'';
                sorts = arg_get arguments ''sorts'';
                page_size = arg_get arguments ''page_size''
            in dumped lib
                 (query_database lib fuel net c database_id filter_criteria sorts JNull page_size)))
      else if name = ''notion_create_database'' then
        (case arg_item arguments ''parent_page_id'' of Inl e \<Rightarrow> raised e | Inr parent_page_id \<Rightarrow>
        (case arg_item arguments ''title'' of Inl e \<Rightarrow> raised e | Inr title \<Rightarrow>
        (case arg_item arguments ''properties'' of Inl e \<Rightarrow> raised e | Inr properties \<Rightarrow>
           (let parent = JObj [(''type'', JStr ''page_id''), (''page_id'', parent_page_id)]
            in dumped lib (create_database lib fuel net c parent title properties)))))
      else if name = ''notion_get_page'' then
        (case arg_item arguments ''page_id'' of Inl e \<Rightarrow> raised e | Inr page_id \<Rightarrow>
           dumped lib (get_page lib fuel net c page_id))
      else if name = ''notion_create_page'' then
        (case arg_item arguments ''parent_type'' of Inl e \<Rightarrow> raised e | Inr parent_type \<Rightarrow>
        (case arg_item arguments ''parent_id'' of Inl e \<Rightarrow> raised e | Inr parent_id \<Rightarrow>
        (case arg_item arguments ''properties'' of Inl e \<Rightarrow> raised e | Inr properties \<Rightarrow>
           (let children = arg_get arguments ''children'';
                parent =
                  (if parent_type = JStr ''database''
                   then JObj [(''type'', JStr ''database_id''), (''database_id'', parent_id)]
                   else JObj [(''type'', JStr ''page_id''), (''page_id'', parent_id)])
            in dumped lib (create_page lib fuel net c parent properties children)))))
      else if name = ''notion_update_page'' then
        (case arg_item arguments ''page_id'' of Inl e \<Rightarrow> raised e | Inr page_id \<Rightarrow>
        (case arg_item arguments ''properties'' of Inl e \<Rightarrow> raised e | Inr properties \<Rightarrow>
           (let archived = arg_get arguments ''archived''
            in dumped lib (update_page lib fuel net c page_id properties archived))))
      else if name = ''notion_get_block_children'' then
        (case arg_item arguments ''block_id'' of Inl e \<Rightarrow> raised e | Inr block_id \<Rightarrow>
           (let page_size = arg_get arguments ''page_size''
            in dumped lib (get_block_children lib fuel net c block_id JNull page_size)))
      else if name = ''notion_append_blocks'' then
        (case arg_item arguments ''block_id'' of Inl e \<Rightarrow> raised e | Inr block_id \<Rightarrow>
        (case arg_item arguments ''children'' of Inl e \<Rightarrow> raised e | Inr children \<Rightarrow>
           dumped lib (append_block_children lib fuel net c block_id children)))
      else if name = ''notion_get_current_user'' then
        dumped lib (get_current_user lib fuel net c)
      else (Some (Inr [TextContent (''Unknown tool: '' @ name)]), []))"

text \<open>\<open>handle_call_tool\<close>: the global \<open>notion_client\<close> is \<open>None\<close> until it is initialised.
  \<open>except Exception\<close> turns an exception of the body into the error text.\<close>

definition handle_call_tool ::
  "pylib \<Rightarrow> nat \<Rightarrow> (nat \<Rightarrow> outcome) \<Rightarrow> notion_client option \<Rightarrow> string \<Rightarrow> (string \<rightharpoonup> json) \<Rightarrow>
   tool_result" where
  "handle_call_tool lib fuel net client name arguments =
     (case client of
        None \<Rightarrow> (Some (Inr [TextContent ''Error: Notion client not initialized'']), [])
      | Some c \<Rightarrow>
          (case call_tool_body lib fuel net c name arguments of
             (Some (Inl e), tr) \<Rightarrow>
               (if is_Exception e
                then (Some (Inr [TextContent (''Error executing '' @ name @ '': '' @ str_exn e)]), tr)
                else (Some (Inl e), tr))
           | (r, tr) \<Rightarrow> (r, tr)))"

section \<open>Example inputs\<close>

definition example_lib :: pylib where
  "example_lib = \<lparr>dumps = (\<lambda>v. []), str_other = (\<lambda>v. [])\<rparr>"

definition example_client :: notion_client where
  "example_client = new_client example_lib ''2022-06-28'' JNull JNull (JStr ''secret'')"

definition users_me_request :: http_request where
  "users_me_request =
     \<lparr>verb = ''GET'', url = ''https://api.notion.com/v1/users/me'',
      headers = [(''Authorization'', ''Bearer secret''), (''Notion-Version'', ''2022-06-28''),
                 (''Content-Type'', ''application/json'')],
      json_body = None, params = None\<rparr>"

definition http_response :: "int \<Rightarrow> retry_after \<Rightarrow> json \<Rightarrow> response" where
  "http_response st ra body =
     \<lparr>status_code = st, retry_after_hdr = ra, error_text = ''HTTP error'',
      content_empty = False, json_result = Inr body\<rparr>"

definition rate_limited :: "nat \<Rightarrow> outcome" where
  "rate_limited i = Responds (http_response 429 (Seconds 2) (JObj []))"

definition server_error_then_ok :: "nat \<Rightarrow> outcome" where
  "server_error_then_ok i =
     (if i = 0 then Responds (http_response 500 Absent (JObj []))
      else Responds (http_response 200 Absent (JObj [(''object'', JStr ''user'')])))"

definition server_error :: "nat \<Rightarrow> outcome" where
  "server_error i = Responds (http_response 503 Absent JNull)"

definition network_down :: "nat \<Rightarrow> outcome" where
  "network_down i = Raises (RequestException ''connection refused'')"

definition down_then_ok :: "nat \<Rightarrow> outcome" where
  "down_then_ok i =
     (if i = 0 then Raises (RequestException ''timed out'')
      else Responds (http_response 200 Absent (JObj [(''object'', JStr ''user'')])))"

definition no_arguments :: "string \<rightharpoonup> json" where
  "no_arguments = Map.empty"

definition create_page_arguments :: "string \<rightharpoonup> json" where
  "create_page_arguments =
     map_of [(''parent_type'', JStr ''database''), (''parent_id'', JStr ''X''),
             (''properties'', JObj [])]"

definition empty_env :: "string \<rightharpoonup> string" where
  "empty_env = Map.empty"

definition nango_env :: "string \<rightharpoonup> string" where
  "nango_env = map_of [(''NANGO_BASE_URL'', ''https://nango.example''),
                       (''NANGO_SECRET_KEY'', ''sk'')]"

definition broker_without_token :: outcome where
  "broker_without_token =
     Responds (http_response 200 Absent (JObj [(''credentials'', JObj [(''type'', JStr ''OAUTH2'')])]))"

definition broker_request :: http_request where
  "broker_request =
     \<lparr>verb = ''GET'', url = ''https://nango.example/connection/conn'',
      headers = [(''Authorization'', ''Bearer sk'')],
      json_body = None,
      params = Some [(''provider_config_key'', JStr ''notion''),
                     (''refresh_token'', JStr ''true'')]\<rparr>"

section \<open>The retry loop\<close>

lemma try_body_http_error:
  "400 \<le> status_code r \<Longrightarrow> status_code r < 600 \<Longrightarrow> status_code r \<noteq> 429 \<Longrightarrow>
   try_body (Responds r) = (Raise (RequestException (error_text r)), [])"
  by (simp add: try_body_def on_response_def raise_for_status_def)

lemma try_body_429:
  "status_code r = 429 \<Longrightarrow> retry_after_hdr r = Seconds n \<Longrightarrow> 0 \<le> n \<Longrightarrow>
   try_body (Responds r) = (Continue, [Sleep n])"
  by (simp add: try_body_def on_response_def time_sleep_def)

lemma try_body_ok:
  "status_code r \<noteq> 429 \<Longrightarrow> \<not> (400 \<le> status_code r \<and> status_code r < 600) \<Longrightarrow>
   json_result r = Inr j \<Longrightarrow>
   try_body (Responds r) = (Return (if content_empty r then JObj [] else j), [])"
  by (simp add: try_body_def on_response_def raise_for_status_def)

lemma try_body_raises: "try_body (Raises e) = (Raise e, [])"
  by (simp add: try_body_def)

declare request_loop.simps [simp del]

lemma upper_GET: "upper ''GET'' = ''GET''"
  by (simp add: upper_def upper_char_def)

lemma example_build: "build_request example_client ''GET''
   (request_url example_client ''users/me'') None None = Inr users_me_request"
  by (simp add: build_request_def upper_GET example_client_def new_client_def request_url_def
      users_me_request_def lstrip_slash_def example_lib_def)

lemma loop_rate_limited:
  assumes req: "build_request c method u data ps = Inr req"
    and net: "\<And>i. try_body (net i) = (Continue, [Sleep n])"
    and rc: "retry_count < max_retries"
  shows "request_loop fuel net c method u data ps retry_count i tr
           = (None, tr @ concat (replicate fuel [Http req, Sleep n]))"
proof (induction fuel arbitrary: i tr)
  case 0
  show ?case by (simp add: request_loop.simps)
next
  case (Suc fuel)
  show ?case
    by (simp add: request_loop.simps rc req net Suc.IH)
qed

text \<open>
  Claim C2: under persistent rate limiting (every attempt answered 429 with
  \<open>Retry-After: 2\<close>) the client is said to give up after 3 attempts. The \<open>continue\<close> of
  the 429 branch skips the increment of \<open>retry_count\<close>, so the loop never leaves: for every
  amount of fuel the request has not returned, and the trace shows one more attempt and one
  more 2-second sleep for each unit of fuel.
\<close>

theorem rate_limit_never_gives_up:
  "make_request fuel rate_limited example_client ''GET'' ''users/me'' None None
     = (None, concat (replicate fuel [Http users_me_request, Sleep 2]))"
proof -
  have "\<And>i. try_body (rate_limited i) = (Continue, [Sleep 2])"
    by (simp add: rate_limited_def http_response_def try_body_429)
  then show ?thesis
    unfolding make_request_def
    using loop_rate_limited [OF example_build, of rate_limited 2 0 fuel 0 "[]"]
    by (simp add: max_retries_def)
qed

text \<open>
  Claim C1, as stated, fails: a 500 on the first attempt is not fatal. \<open>raise_for_status\<close>
  raises inside the \<open>try\<close>, and \<open>HTTPError\<close> is a \<open>RequestException\<close>, so the handler
  sleeps one second and sends the request again; here the second attempt succeeds and its
  body is returned.
\<close>

theorem http_error_not_immediate:
  "make_request 3 server_error_then_ok example_client ''GET'' ''users/me'' None None
     = (Some (Inr (JObj [(''object'', JStr ''user'')])),
        [Http users_me_request, Sleep 1, Http users_me_request])"
proof -
  have a: "try_body (server_error_then_ok 0)
             = (Raise (RequestException ''HTTP error''), [])"
    by (simp add: server_error_then_ok_def http_response_def try_body_http_error)
  have b: "try_body (server_error_then_ok (Suc 0))
             = (Return (JObj [(''object'', JStr ''user'')]), [])"
    by (simp add: server_error_then_ok_def http_response_def try_body_ok)
  have three: "(3::nat) = Suc (Suc (Suc 0))" by simp
  show ?thesis
    unfolding make_request_def three
    by (simp add: request_loop.simps example_build a b max_retries_def)
qed

lemma fuel_three: "3 \<le> fuel \<Longrightarrow> \<exists>n. fuel = Suc (Suc (Suc n))"
  by (metis le_Suc_ex numeral_3_eq_3 add_Suc)

lemma three_failures:
  assumes req: "build_request c method u data ps = Inr req"
    and t0: "try_body (net 0) = (Raise e0, [])" and t1: "try_body (net (Suc 0)) = (Raise e1, [])"
    and t2: "try_body (net (Suc (Suc 0))) = (Raise e2, [])"
    and e: "is_RequestException e0" "is_RequestException e1" "is_RequestException e2"
  shows "request_loop (Suc (Suc (Suc n))) net c method u data ps 0 0 []
           = (Some (Inl (NotionAPIError (''API request failed after 3 retries: '' @ str_exn e2))),
              [Http req, Sleep 1, Http req, Sleep 1, Http req])"
  by (simp add: request_loop.simps req t0 t1 t2 e max_retries_def)

lemma success_after_failures:
  assumes req: "build_request c method u data ps = Inr req"
    and fails: "\<And>i. i < k \<Longrightarrow> \<exists>e. try_body (net (first + i)) = (Raise e, []) \<and> is_RequestException e"
    and ok: "try_body (net (first + k)) = (Return j, [])"
    and k: "retry_count + k < max_retries"
  shows "request_loop (Suc (k + n)) net c method u data ps retry_count first tr
           = (Some (Inr j), tr @ concat (replicate k [Http req, Sleep 1]) @ [Http req])"
  using fails ok k
proof (induction k arbitrary: retry_count first tr)
  case 0
  then show ?case by (simp add: request_loop.simps req)
next
  case (Suc k)
  from Suc.prems(1) [of 0] obtain e where e: "try_body (net first) = (Raise e, [])" "is_RequestException e"
    by auto
  have fails': "\<And>i. i < k \<Longrightarrow> \<exists>e. try_body (net (Suc first + i)) = (Raise e, []) \<and> is_RequestException e"
    using Suc.prems(1) by (metis Suc_less_eq add_Suc_shift)
  have ok': "try_body (net (Suc first + k)) = (Return j, [])"
    using Suc.prems(2) by simp
  have k': "Suc retry_count + k < max_retries"
    using Suc.prems(3) by simp
  have step: "request_loop (Suc (Suc k + n)) net c method u data ps retry_count first tr
                = request_loop (Suc (k + n)) net c method u data ps (Suc retry_count) (Suc first)
                    (tr @ [Http req, Sleep 1])"
    using Suc.prems(3)
    by (simp only: add_Suc, subst request_loop.simps) (simp add: req e max_retries_def)
  show ?case
    using step Suc.IH [OF fails' ok' k', of "tr @ [Http req, Sleep 1]"] by simp
qed


text \<open>
  Claim C3: when the first three attempts all raise a network-level exception (a
  \<open>RequestException\<close>), the request fails with \<open>NotionAPIError\<close> carrying the message of
  the last one, after exactly three attempts; when fewer than three attempts fail this way
  and the next is answered with a 2xx status, the parsed body of that response is returned
  (the empty mapping for an empty body).
\<close>

theorem network_failures:
  assumes req: "build_request c method (request_url c endpoint) data ps = Inr req"
  shows "(net 0 = Raises e0 \<and> net 1 = Raises e1 \<and> net 2 = Raises e2 \<and>
          is_RequestException e0 \<and> is_RequestException e1 \<and> is_RequestException e2 \<and> 3 \<le> fuel
          \<longrightarrow> make_request fuel net c method endpoint data ps
                = (Some (Inl (NotionAPIError
                     (''API request failed after 3 retries: '' @ str_exn e2))),
                   [Http req, Sleep 1, Http req, Sleep 1, Http req]))
       \<and> (k < 3 \<and> (\<forall>i<k. \<exists>e. net i = Raises e \<and> is_RequestException e) \<and>
          net k = Responds r \<and> 200 \<le> status_code r \<and> status_code r < 300 \<and>
          json_result r = Inr j \<and> k < fuel
          \<longrightarrow> make_request fuel net c method endpoint data ps
                = (Some (Inr (if content_empty r then JObj [] else j)),
                   concat (replicate k [Http req, Sleep 1]) @ [Http req]))"
proof (intro conjI impI)
  assume a: "net 0 = Raises e0 \<and> net 1 = Raises e1 \<and> net 2 = Raises e2 \<and>
          is_RequestException e0 \<and> is_RequestException e1 \<and> is_RequestException e2 \<and> 3 \<le> fuel"
  then obtain n where n: "fuel = Suc (Suc (Suc n))"
    using fuel_three by blast
  have t0: "try_body (net 0) = (Raise e0, [])"
    using a by (simp add: try_body_raises)
  have t1: "try_body (net (Suc 0)) = (Raise e1, [])"
    using a by (simp add: try_body_raises)
  have t2: "try_body (net (Suc (Suc 0))) = (Raise e2, [])"
    using a by (simp add: try_body_raises numeral_2_eq_2)
  show "make_request fuel net c method endpoint data ps
          = (Some (Inl (NotionAPIError
               (''API request failed after 3 retries: '' @ str_exn e2))),
             [Http req, Sleep 1, Http req, Sleep 1, Http req])"
    unfolding make_request_def n
    using three_failures [OF req t0 t1 t2] a by simp
next
  assume b: "k < 3 \<and> (\<forall>i<k. \<exists>e. net i = Raises e \<and> is_RequestException e) \<and>
          net k = Responds r \<and> 200 \<le> status_code r \<and> status_code r < 300 \<and>
          json_result r = Inr j \<and> k < fuel"
  have ok: "try_body (net (0 + k)) = (Return (if content_empty r then JObj [] else j), [])"
    using b by (simp add: try_body_ok)
  have fails: "\<And>i. i < k \<Longrightarrow> \<exists>e. try_body (net (0 + i)) = (Raise e, []) \<and> is_RequestException e"
    using b by (auto simp add: try_body_raises)
  from b obtain n where n: "fuel = Suc (k + n)"
    using less_imp_Suc_add by blast
  have k: "0 + k < max_retries"
    using b by (simp add: max_retries_def)
  show "make_request fuel net c method endpoint data ps
          = (Some (Inr (if content_empty r then JObj [] else j)),
             concat (replicate k [Http req, Sleep 1]) @ [Http req])"
    unfolding make_request_def n
    using success_after_failures
        [where net = net and first = 0 and k = k and retry_count = 0 and n = n and tr = "[]",
         OF req fails ok k]
    by simp
qed


text \<open>
  Claim C1, amended: a response with a 4xx or 5xx status other than 429 counts as a failed
  attempt, like a network failure. When the first three attempts are all answered so, the
  request fails with \<open>NotionAPIError\<close> carrying the message of the last HTTP error, after
  three attempts with a one-second sleep between them.
\<close>

theorem http_error_retried:
  assumes req: "build_request c method (request_url c endpoint) data ps = Inr req"
    and r0: "net 0 = Responds r0" and r1: "net 1 = Responds r1" and r2: "net 2 = Responds r2"
    and st: "\<forall>r \<in> {r0, r1, r2}. 400 \<le> status_code r \<and> status_code r < 600 \<and> status_code r \<noteq> 429"
    and fuel: "3 \<le> fuel"
  shows "make_request fuel net c method endpoint data ps
           = (Some (Inl (NotionAPIError
                (''API request failed after 3 retries: '' @ error_text r2))),
              [Http req, Sleep 1, Http req, Sleep 1, Http req])"
proof -
  obtain n where n: "fuel = Suc (Suc (Suc n))"
    using fuel_three [OF fuel] by blast
  have t0: "try_body (net 0) = (Raise (RequestException (error_text r0)), [])"
    using st by (simp add: r0 try_body_http_error)
  have t1: "try_body (net (Suc 0)) = (Raise (RequestException (error_text r1)), [])"
    using st r1 by (simp add: try_body_http_error)
  have t2: "try_body (net (Suc (Suc 0))) = (Raise (RequestException (error_text r2)), [])"
    using st r2 by (simp add: try_body_http_error numeral_2_eq_2)
  show ?thesis
    unfolding make_request_def n
    using three_failures [OF req t0 t1 t2] by simp
qed

theorem http_error_retried_witness:
  "build_request example_client ''GET'' (request_url example_client ''users/me'') None None
     = Inr users_me_request
   \<and> server_error 0 = Responds (http_response 503 Absent JNull)
   \<and> 400 \<le> status_code (http_response 503 Absent JNull)
   \<and> status_code (http_response 503 Absent JNull) < 600
   \<and> status_code (http_response 503 Absent JNull) \<noteq> 429
   \<and> make_request 3 server_error example_client ''GET'' ''users/me'' None None
       = (Some (Inl (NotionAPIError ''API request failed after 3 retries: HTTP error'')),
          [Http users_me_request, Sleep 1, Http users_me_request, Sleep 1,
           Http users_me_request])"
  using http_error_retried [OF example_build, of server_error "http_response 503 Absent JNull"
      "http_response 503 Absent JNull" "http_response 503 Absent JNull" 3]
  by (simp add: example_build server_error_def http_response_def)

theorem network_failures_witness:
  "make_request 3 network_down example_client ''GET'' ''users/me'' None None
     = (Some (Inl (NotionAPIError ''API request failed after 3 retries: connection refused'')),
        [Http users_me_request, Sleep 1, Http users_me_request, Sleep 1, Http users_me_request])
   \<and> make_request 3 down_then_ok example_client ''GET'' ''users/me'' None None
     = (Some (Inr (JObj [(''object'', JStr ''user'')])),
        [Http users_me_request, Sleep 1, Http users_me_request])"
proof
  show "make_request 3 network_down example_client ''GET'' ''users/me'' None None
     = (Some (Inl (NotionAPIError ''API request failed after 3 retries: connection refused'')),
        [Http users_me_request, Sleep 1, Http users_me_request, Sleep 1, Http users_me_request])"
    using network_failures [OF example_build, of network_down
        "RequestException ''connection refused''" "RequestException ''connection refused''"
        "RequestException ''connection refused''" 3]
    by (simp add: network_down_def)
  show "make_request 3 down_then_ok example_client ''GET'' ''users/me'' None None
     = (Some (Inr (JObj [(''object'', JStr ''user'')])),
        [Http users_me_request, Sleep 1, Http users_me_request])"
    using network_failures [OF example_build, of down_then_ok _ _ _ 3 1
        "http_response 200 Absent (JObj [(''object'', JStr ''user'')])"
        "JObj [(''object'', JStr ''user'')]"]
    by (simp add: down_then_ok_def http_response_def)
qed

section \<open>Payloads of the client's operations\<close>

lemma sent_append: "sent (a @ b) = sent a @ sent b"
  by (induction a rule: sent.induct) simp_all

lemma upper_POST: "upper ''POST'' = ''POST''"
  by (simp add: upper_def upper_char_def)

lemma upper_PATCH: "upper ''PATCH'' = ''PATCH''"
  by (simp add: upper_def upper_char_def)

lemma build_GET:
  "build_request c ''GET'' u data ps
     = Inr \<lparr>verb = ''GET'', url = u, headers = client_headers c, json_body = None, params = ps\<rparr>"
  by (simp add: build_request_def upper_GET)

lemma build_POST:
  "build_request c ''POST'' u data ps
     = Inr \<lparr>verb = ''POST'', url = u, headers = client_headers c, json_body = data, params = None\<rparr>"
  by (simp add: build_request_def upper_POST)

lemma build_PATCH:
  "build_request c ''PATCH'' u data ps
     = Inr \<lparr>verb = ''PATCH'', url = u, headers = client_headers c, json_body = data, params = None\<rparr>"
  by (simp add: build_request_def upper_PATCH)

lemma on_response_sent: "sent (snd (on_response r)) = []"
  by (simp add: on_response_def time_sleep_def raise_for_status_def
      split: retry_after.splits sum.splits)

lemma try_body_sent: "try_body out = (st, evs) \<Longrightarrow> sent evs = []"
  using on_response_sent by (cases out) (auto simp add: try_body_def, metis snd_conv)

lemma loop_trace:
  assumes req: "build_request c method u data ps = Inr req"
  shows "\<exists>ext. snd (request_loop fuel net c method u data ps retry_count i tr) = tr @ ext
           \<and> set (sent ext) \<subseteq> {req}
           \<and> (0 < fuel \<and> retry_count < max_retries \<longrightarrow> req \<in> set (sent ext))"
proof (induction fuel arbitrary: retry_count i tr)
  case 0
  show ?case by (simp add: request_loop.simps)
next
  case (Suc fuel)
  show ?case
  proof (cases "retry_count < max_retries")
    case False
    then show ?thesis by (simp add: request_loop.simps)
  next
    case True
    obtain st evs where tb: "try_body (net i) = (st, evs)"
      by (cases "try_body (net i)")
    have evs: "sent evs = []"
      using tb by (rule try_body_sent)
    show ?thesis
    proof (cases st)
      case (Return j)
      then show ?thesis
        using True tb evs by (simp add: request_loop.simps req)
    next
      case Continue
      from Suc.IH [of retry_count "i + 1" "tr @ Http req # evs"]
      obtain ext where ext:
        "snd (request_loop fuel net c method u data ps retry_count (i + 1) (tr @ Http req # evs))
           = (tr @ Http req # evs) @ ext" "set (sent ext) \<subseteq> {req}"
        by blast
      have "snd (request_loop (Suc fuel) net c method u data ps retry_count i tr)
              = tr @ (Http req # evs @ ext)"
        using True tb Continue ext(1) by (simp add: request_loop.simps req)
      moreover have "set (sent (Http req # evs @ ext)) \<subseteq> {req}"
        using ext(2) evs by (simp add: sent_append)
      moreover have "req \<in> set (sent (Http req # evs @ ext))"
        by simp
      ultimately show ?thesis by blast
    next
      case (Raise e)
      show ?thesis
      proof (cases "is_RequestException e \<and> retry_count \<noteq> max_retries - 1")
        case False
        then show ?thesis
          using True tb evs Raise by (auto simp add: request_loop.simps req)
      next
        case retry: True
        from Suc.IH [of "retry_count + 1" "i + 1" "tr @ Http req # evs @ [Sleep 1]"]
        obtain ext where ext:
          "snd (request_loop fuel net c method u data ps (retry_count + 1) (i + 1)
                  (tr @ Http req # evs @ [Sleep 1]))
             = (tr @ Http req # evs @ [Sleep 1]) @ ext" "set (sent ext) \<subseteq> {req}"
          by blast
        have "snd (request_loop (Suc fuel) net c method u data ps retry_count i tr)
                = tr @ (Http req # evs @ [Sleep 1] @ ext)"
          using True tb Raise retry ext(1) by (simp add: request_loop.simps req)
        moreover have "set (sent (Http req # evs @ [Sleep 1] @ ext)) \<subseteq> {req}"
          using ext(2) evs by (simp add: sent_append)
        moreover have "req \<in> set (sent (Http req # evs @ [Sleep 1] @ ext))"
          by simp
        ultimately show ?thesis by blast
      qed
    qed
  qed
qed

lemma make_request_sent:
  assumes req: "build_request c method (request_url c endpoint) data ps = Inr req"
  shows "set (sent (snd (make_request fuel net c method endpoint data ps))) \<subseteq> {req}"
    and "0 < fuel \<Longrightarrow> req \<in> set (sent (snd (make_request fuel net c method endpoint data ps)))"
  using loop_trace [OF req, of fuel net 0 0 "[]"]
  by (auto simp add: make_request_def max_retries_def)

lemma sent_invoke: "sent (snd (invoke m r)) = sent (snd r)"
  by (simp add: invoke_def)

lemma map_of_dict_set: "map_of (dict_set d k v) k = Some v"
  by (induction d) auto


lemma sent_with_body:
  assumes req: "build_request c method (request_url c endpoint) data ps = Inr req"
    and fuel: "0 < fuel"
  shows "sent (snd (make_request fuel net c method endpoint data ps)) \<noteq> []
         \<and> (\<forall>r \<in> set (sent (snd (make_request fuel net c method endpoint data ps))). r = req)"
proof -
  have "req \<in> set (sent (snd (make_request fuel net c method endpoint data ps)))"
    by (rule make_request_sent(2) [OF req fuel])
  moreover have "set (sent (snd (make_request fuel net c method endpoint data ps))) \<subseteq> {req}"
    by (rule make_request_sent(1) [OF req])
  ultimately show ?thesis by auto
qed

lemma post_sent:
  "0 < fuel \<Longrightarrow>
   sent (snd (make_request fuel net c ''POST'' endpoint data None)) \<noteq> []
   \<and> (\<forall>r \<in> set (sent (snd (make_request fuel net c ''POST'' endpoint data None))).
         json_body r = data)"
  using sent_with_body [OF build_POST, of fuel net c endpoint data None] by auto

lemma patch_sent:
  "0 < fuel \<Longrightarrow>
   sent (snd (make_request fuel net c ''PATCH'' endpoint data None)) \<noteq> []
   \<and> (\<forall>r \<in> set (sent (snd (make_request fuel net c ''PATCH'' endpoint data None))).
         json_body r = data)"
  using sent_with_body [OF build_PATCH, of fuel net c endpoint data None] by auto

lemma get_sent:
  "0 < fuel \<Longrightarrow>
   sent (snd (make_request fuel net c ''GET'' endpoint None ps)) \<noteq> []
   \<and> (\<forall>r \<in> set (sent (snd (make_request fuel net c ''GET'' endpoint None ps))).
         params r = ps)"
  using sent_with_body [OF build_GET, of fuel net c endpoint None ps] by auto

lemma query_database_data_clamped:
  "100 < n \<Longrightarrow> \<exists>d. query_database_data f s sc (JInt n) = Inr d
     \<and> map_of d ''page_size'' = Some (JInt 100)"
  by (simp add: query_database_data_def Let_def map_of_dict_set)

lemma search_data_clamped:
  "100 < n \<Longrightarrow> \<exists>d. search_data q f s sc (JInt n) = Inr d
     \<and> map_of d ''page_size'' = Some (JInt 100)"
  by (simp add: search_data_def Let_def map_of_dict_set)

lemma get_block_children_params_clamped:
  "100 < n \<Longrightarrow> \<exists>d. get_block_children_params sc (JInt n) = Inr d
     \<and> map_of d ''page_size'' = Some (JInt 100)"
  by (simp add: get_block_children_params_def Let_def map_of_dict_set)

text \<open>
  Claim C4: in \<open>query_database\<close>, \<open>search\<close> and \<open>get_block_children\<close> a \<open>page_size\<close>
  above 100 goes upstream as 100: the operation sends at least one request, and every
  request it sends carries \<open>page_size = 100\<close> (in the JSON body for the two POST
  operations, in the query parameters for \<open>get_block_children\<close>).
\<close>

theorem page_size_clamped:
  assumes n: "100 < n" and fuel: "0 < fuel"
  shows "(sent (snd (query_database lib fuel net c db f s sc (JInt n))) \<noteq> []
          \<and> (\<forall>r \<in> set (sent (snd (query_database lib fuel net c db f s sc (JInt n)))).
                \<exists>d. json_body r = Some d \<and> map_of d ''page_size'' = Some (JInt 100)))
       \<and> (sent (snd (search lib fuel net c q f s sc (JInt n))) \<noteq> []
          \<and> (\<forall>r \<in> set (sent (snd (search lib fuel net c q f s sc (JInt n)))).
                \<exists>d. json_body r = Some d \<and> map_of d ''page_size'' = Some (JInt 100)))
       \<and> (sent (snd (get_block_children lib fuel net c b sc (JInt n))) \<noteq> []
          \<and> (\<forall>r \<in> set (sent (snd (get_block_children lib fuel net c b sc (JInt n)))).
                \<exists>d. params r = Some d \<and> map_of d ''page_size'' = Some (JInt 100)))"
proof (intro conjI)
  obtain d where d: "query_database_data f s sc (JInt n) = Inr d"
      "map_of d ''page_size'' = Some (JInt 100)"
    using query_database_data_clamped [OF n] by blast
  let ?tr = "snd (query_database lib fuel net c db f s sc (JInt n))"
  have eq: "sent ?tr = sent (snd (make_request fuel net c ''POST''
              (''databases/'' @ py_format lib db @ ''/query'') (Some d) None))"
    by (simp add: query_database_def d sent_invoke)
  show "sent ?tr \<noteq> []"
    unfolding eq using post_sent [OF fuel] by blast
  show "\<forall>r \<in> set (sent ?tr). \<exists>d. json_body r = Some d \<and> map_of d ''page_size'' = Some (JInt 100)"
    unfolding eq using post_sent [OF fuel] d(2) by blast
next
  obtain d where d: "search_data q f s sc (JInt n) = Inr d"
      "map_of d ''page_size'' = Some (JInt 100)"
    using search_data_clamped [OF n] by blast
  let ?tr = "snd (search lib fuel net c q f s sc (JInt n))"
  have eq: "sent ?tr = sent (snd (make_request fuel net c ''POST'' ''search'' (Some d) None))"
    by (simp add: search_def d sent_invoke)
  show "sent ?tr \<noteq> []"
    unfolding eq using post_sent [OF fuel] by blast
  show "\<forall>r \<in> set (sent ?tr). \<exists>d. json_body r = Some d \<and> map_of d ''page_size'' = Some (JInt 100)"
    unfolding eq using post_sent [OF fuel] d(2) by blast
next
  obtain d where d: "get_block_children_params sc (JInt n) = Inr d"
      "map_of d ''page_size'' = Some (JInt 100)"
    using get_block_children_params_clamped [OF n] by blast
  let ?tr = "snd (get_block_children lib fuel net c b sc (JInt n))"
  have eq: "sent ?tr = sent (snd (make_request fuel net c ''GET''
              (''blocks/'' @ py_format lib b @ ''/children'') None (Some d)))"
    by (simp add: get_block_children_def d sent_invoke)
  show "sent ?tr \<noteq> []"
    unfolding eq using get_sent [OF fuel] by blast
  show "\<forall>r \<in> set (sent ?tr). \<exists>d. params r = Some d \<and> map_of d ''page_size'' = Some (JInt 100)"
    unfolding eq using get_sent [OF fuel] d(2) by blast
qed


theorem page_size_clamped_witness:
  "(100::int) < 150 \<and> (0::nat) < 1
   \<and> sent (snd (search example_lib 1 network_down example_client
                  (JStr ''notes'') JNull JNull JNull (JInt 150))) \<noteq> []
   \<and> map json_body (sent (snd (search example_lib 1 network_down example_client
                  (JStr ''notes'') JNull JNull JNull (JInt 150))))
       = [Some [(''query'', JStr ''notes''), (''page_size'', JInt 100)]]"
proof -
  have ev: "map json_body (sent (snd (search example_lib (Suc 0) network_down example_client
                  (JStr ''notes'') JNull JNull JNull (JInt 150))))
       = [Some [(''query'', JStr ''notes''), (''page_size'', JInt 100)]]"
    by (simp add: search_def search_data_def sent_invoke make_request_def request_loop.simps
        build_POST try_body_raises network_down_def max_retries_def)
  show ?thesis
    using ev page_size_clamped [where n = 150 and fuel = 1 and lib = example_lib
      and net = network_down and c = example_client and q = "JStr ''notes''"
      and f = JNull and s = JNull and sc = JNull and db = JNull and b = JNull]
    by simp
qed

lemma query_database_data_falsy:
  assumes "\<not> truthy v"
  shows "query_database_data v s sc p = query_database_data JNull s sc p"
    and "query_database_data f v sc p = query_database_data f JNull sc p"
    and "query_database_data f s v p = query_database_data f s JNull p"
    and "query_database_data f s sc v = query_database_data f s sc JNull"
  using assms by (simp_all add: query_database_data_def)

lemma search_data_falsy:
  assumes "\<not> truthy v"
  shows "search_data v f s sc p = search_data JNull f s sc p"
    and "search_data q v s sc p = search_data q JNull s sc p"
    and "search_data q f v sc p = search_data q f JNull sc p"
    and "search_data q f s v p = search_data q f s JNull p"
    and "search_data q f s sc v = search_data q f s sc JNull"
  using assms by (simp_all add: search_data_def)

lemma get_block_children_params_falsy:
  assumes "\<not> truthy v"
  shows "get_block_children_params v p = get_block_children_params JNull p"
    and "get_block_children_params sc v = get_block_children_params sc JNull"
  using assms by (simp_all add: get_block_children_params_def)

lemma create_page_data_falsy:
  "\<not> truthy v \<Longrightarrow> create_page_data parent props v = create_page_data parent props JNull"
  by (simp add: create_page_data_def)

text \<open>
  Claim C10: an optional argument given a falsy value (\<open>0\<close>, the empty string, an empty
  list or dict, \<open>False\<close>) behaves exactly as \<open>None\<close> does, for every optional argument
  of \<open>query_database\<close>, \<open>search\<close>, \<open>get_block_children\<close> and \<open>create_page\<close>, and the key
  is left out of the payload. The exception is \<open>archived\<close> of \<open>update_page\<close>: it is in the
  body whenever it is not \<open>None\<close>, also when it is \<open>False\<close>.
\<close>

theorem falsy_optional_omitted:
  assumes v: "\<not> truthy v"
  shows "query_database lib fuel net c db v s sc p = query_database lib fuel net c db JNull s sc p
     \<and> query_database lib fuel net c db f v sc p = query_database lib fuel net c db f JNull sc p
     \<and> query_database lib fuel net c db f s v p = query_database lib fuel net c db f s JNull p
     \<and> query_database lib fuel net c db f s sc v = query_database lib fuel net c db f s sc JNull
     \<and> search lib fuel net c v f s sc p = search lib fuel net c JNull f s sc p
     \<and> search lib fuel net c q v s sc p = search lib fuel net c q JNull s sc p
     \<and> search lib fuel net c q f v sc p = search lib fuel net c q f JNull sc p
     \<and> search lib fuel net c q f s v p = search lib fuel net c q f s JNull p
     \<and> search lib fuel net c q f s sc v = search lib fuel net c q f s sc JNull
     \<and> get_block_children lib fuel net c b v p = get_block_children lib fuel net c b JNull p
     \<and> get_block_children lib fuel net c b sc v = get_block_children lib fuel net c b sc JNull
     \<and> create_page lib fuel net c parent props v = create_page lib fuel net c parent props JNull
     \<and> query_database_data v v v v = Inr []
     \<and> search_data v v v v v = Inr []
     \<and> get_block_children_params v v = Inr []
     \<and> create_page_data parent props v = [(''parent'', parent), (''properties'', props)]
     \<and> update_page_data props (JBool False)
         = [(''properties'', props), (''archived'', JBool False)]
     \<and> map_of (update_page_data props a) ''archived'' = (if a = JNull then None else Some a)
     \<and> (0 < fuel \<longrightarrow>
          sent (snd (update_page lib fuel net c pid props a)) \<noteq> []
          \<and> (\<forall>r \<in> set (sent (snd (update_page lib fuel net c pid props a))).
                json_body r = Some (update_page_data props a)))"
proof (intro conjI impI)
  show "0 < fuel \<Longrightarrow> sent (snd (update_page lib fuel net c pid props a)) \<noteq> []"
    using patch_sent by (simp add: update_page_def sent_invoke)
  show "0 < fuel \<Longrightarrow> \<forall>r \<in> set (sent (snd (update_page lib fuel net c pid props a))).
          json_body r = Some (update_page_data props a)"
    using patch_sent by (simp add: update_page_def sent_invoke)
qed (simp_all add: query_database_def search_def get_block_children_def create_page_def
      query_database_data_falsy [OF v] search_data_falsy [OF v]
      get_block_children_params_falsy [OF v] create_page_data_falsy [OF v]
      query_database_data_def search_data_def get_block_children_params_def
      create_page_data_def update_page_data_def v)

theorem falsy_optional_omitted_witness:
  "\<not> truthy (JInt 0)
   \<and> search example_lib 1 network_down example_client (JStr ''notes'') JNull JNull JNull (JInt 0)
     = search example_lib 1 network_down example_client (JStr ''notes'') JNull JNull JNull JNull
   \<and> search_data (JInt 0) (JInt 0) (JInt 0) (JInt 0) (JInt 0) = Inr []
   \<and> map_of (update_page_data (JObj []) (JBool False)) ''archived'' = Some (JBool False)"
  using falsy_optional_omitted [where v = "JInt 0" and lib = example_lib and fuel = 1
      and net = network_down and c = example_client and q = "JStr ''notes''" and f = JNull
      and s = JNull and sc = JNull and props = "JObj []" and a = "JBool False"]
  by simp

section \<open>The dispatcher\<close>

lemma snd_dumped: "snd (dumped lib r) = snd r"
  by (simp add: dumped_def split: option.splits sum.splits)

lemma snd_handle_call_tool:
  "snd (handle_call_tool lib fuel net (Some c) name arguments)
     = snd (call_tool_body lib fuel net c name arguments)"
  by (simp add: handle_call_tool_def split: prod.splits option.splits sum.splits)

text \<open>
  Claim C6: with an initialised client, a tool name outside the ten registered names gets
  the text \<open>Unknown tool: name\<close>, and the trace is empty: no client method is entered and
  no request is sent.
\<close>

theorem unknown_tool:
  assumes "name \<notin> set (map tool_name handle_list_tools)"
  shows "handle_call_tool lib fuel net (Some c) name arguments
           = (Some (Inr [TextContent (''Unknown tool: '' @ name)]), [])"
  using assms by (simp add: handle_list_tools_def handle_call_tool_def call_tool_body_def)

theorem unknown_tool_witness:
  "''notion_delete_page'' \<notin> set (map tool_name handle_list_tools)
   \<and> handle_call_tool example_lib 3 network_down (Some example_client)
        ''notion_delete_page'' no_arguments
       = (Some (Inr [TextContent ''Unknown tool: notion_delete_page'']), [])"
  using unknown_tool [of "''notion_delete_page''" example_lib 3 network_down example_client
      no_arguments]
  by (simp add: handle_list_tools_def)

lemma create_page_call:
  assumes "arguments ''parent_type'' = Some pt" "arguments ''parent_id'' = Some x"
    "arguments ''properties'' = Some props"
  shows "call_tool_body lib fuel net c ''notion_create_page'' arguments
     = dumped lib (create_page lib fuel net c
         (if pt = JStr ''database''
          then JObj [(''type'', JStr ''database_id''), (''database_id'', x)]
          else JObj [(''type'', JStr ''page_id''), (''page_id'', x)])
         props (arg_get arguments ''children''))"
  using assms by (simp add: call_tool_body_def arg_item_def Let_def)

lemma create_page_sent:
  assumes "0 < fuel"
  shows "sent (snd (create_page lib fuel net c parent props children)) \<noteq> []
     \<and> (\<forall>r \<in> set (sent (snd (create_page lib fuel net c parent props children))).
           \<exists>d. json_body r = Some d \<and> map_of d ''parent'' = Some parent)"
proof -
  have "map_of (create_page_data parent props children) ''parent'' = Some parent"
    by (simp add: create_page_data_def Let_def)
  then show ?thesis
    using post_sent [OF assms] by (simp add: create_page_def sent_invoke)
qed

text \<open>
  Claim C7: dispatching \<open>notion_create_page\<close> with \<open>parent_type = "database"\<close> and
  \<open>parent_id = x\<close> sends a request whose body has \<open>parent\<close> equal to
  \<open>{"type": "database_id", "database_id": x}\<close>; with \<open>parent_type = "page"\<close> it is
  \<open>{"type": "page_id", "page_id": x}\<close>. (The required \<open>properties\<close> must be there for
  any request to be built.)
\<close>

theorem create_page_parent:
  assumes pid: "arguments ''parent_id'' = Some x"
    and props: "arguments ''properties'' = Some props"
    and fuel: "0 < fuel"
  shows "(arguments ''parent_type'' = Some (JStr ''database'') \<longrightarrow>
            sent (snd (handle_call_tool lib fuel net (Some c) ''notion_create_page'' arguments)) \<noteq> []
            \<and> (\<forall>r \<in> set (sent (snd (handle_call_tool lib fuel net (Some c)
                                      ''notion_create_page'' arguments))).
                  \<exists>d. json_body r = Some d \<and> map_of d ''parent''
                    = Some (JObj [(''type'', JStr ''database_id''), (''database_id'', x)])))
       \<and> (arguments ''parent_type'' = Some (JStr ''page'') \<longrightarrow>
            sent (snd (handle_call_tool lib fuel net (Some c) ''notion_create_page'' arguments)) \<noteq> []
            \<and> (\<forall>r \<in> set (sent (snd (handle_call_tool lib fuel net (Some c)
                                      ''notion_create_page'' arguments))).
                  \<exists>d. json_body r = Some d \<and> map_of d ''parent''
                    = Some (JObj [(''type'', JStr ''page_id''), (''page_id'', x)])))"
proof (intro conjI impI)
  assume pt: "arguments ''parent_type'' = Some (JStr ''database'')"
  have eq: "sent (snd (handle_call_tool lib fuel net (Some c) ''notion_create_page'' arguments))
      = sent (snd (create_page lib fuel net c
          (JObj [(''type'', JStr ''database_id''), (''database_id'', x)])
          props (arg_get arguments ''children'')))"
    by (simp add: snd_handle_call_tool create_page_call [OF pt pid props] snd_dumped)
  show "sent (snd (handle_call_tool lib fuel net (Some c) ''notion_create_page'' arguments)) \<noteq> []"
    unfolding eq using create_page_sent [OF fuel] by blast
  show "\<forall>r \<in> set (sent (snd (handle_call_tool lib fuel net (Some c)
                                      ''notion_create_page'' arguments))).
                  \<exists>d. json_body r = Some d \<and> map_of d ''parent''
                    = Some (JObj [(''type'', JStr ''database_id''), (''database_id'', x)])"
    unfolding eq using create_page_sent [OF fuel] by blast
next
  assume pt: "arguments ''parent_type'' = Some (JStr ''page'')"
  have eq: "sent (snd (handle_call_tool lib fuel net (Some c) ''notion_create_page'' arguments))
      = sent (snd (create_page lib fuel net c
          (JObj [(''type'', JStr ''page_id''), (''page_id'', x)])
          props (arg_get arguments ''children'')))"
    by (simp add: snd_handle_call_tool create_page_call [OF pt pid props] snd_dumped)
  show "sent (snd (handle_call_tool lib fuel net (Some c) ''notion_create_page'' arguments)) \<noteq> []"
    unfolding eq using create_page_sent [OF fuel] by blast
  show "\<forall>r \<in> set (sent (snd (handle_call_tool lib fuel net (Some c)
                                      ''notion_create_page'' arguments))).
                  \<exists>d. json_body r = Some d \<and> map_of d ''parent''
                    = Some (JObj [(''type'', JStr ''page_id''), (''page_id'', x)])"
    unfolding eq using create_page_sent [OF fuel] by blast
qed


theorem create_page_parent_witness:
  "create_page_arguments ''parent_id'' = Some (JStr ''X'')
   \<and> create_page_arguments ''properties'' = Some (JObj [])
   \<and> create_page_arguments ''parent_type'' = Some (JStr ''database'')
   \<and> (0::nat) < 1
   \<and> sent (snd (handle_call_tool example_lib 1 network_down (Some example_client)
                  ''notion_create_page'' create_page_arguments)) \<noteq> []
   \<and> map json_body (sent (snd (handle_call_tool example_lib 1 network_down (Some example_client)
                  ''notion_create_page'' create_page_arguments)))
       = [Some [(''parent'', JObj [(''type'', JStr ''database_id''), (''database_id'', JStr ''X'')]),
                (''properties'', JObj [])]]"
proof -
  have args: "create_page_arguments ''parent_id'' = Some (JStr ''X'')"
      "create_page_arguments ''properties'' = Some (JObj [])"
      "create_page_arguments ''parent_type'' = Some (JStr ''database'')"
      "create_page_arguments ''children'' = None"
    by (simp_all add: create_page_arguments_def)
  have ev: "map json_body (sent (snd (handle_call_tool example_lib (Suc 0) network_down
                  (Some example_client) ''notion_create_page'' create_page_arguments)))
       = [Some [(''parent'', JObj [(''type'', JStr ''database_id''), (''database_id'', JStr ''X'')]),
                (''properties'', JObj [])]]"
    by (simp add: snd_handle_call_tool create_page_call [OF args(3) args(1) args(2)] snd_dumped
        create_page_def create_page_data_def arg_get_def args(4) sent_invoke make_request_def
        request_loop.simps build_POST try_body_raises network_down_def max_retries_def)
  show ?thesis
    using ev args create_page_parent [OF args(1) args(2), of 1 example_lib network_down
        example_client]
    by simp
qed

lemma is_prefix_append: "is_prefix sub (sub @ post)"
  by (induction sub) simp_all

lemma str_contains_mid: "str_contains (pre @ sub @ post) sub"
proof (induction pre)
  case Nil
  show ?case by (cases "sub @ post") (use is_prefix_append [of sub post] in auto)
next
  case (Cons a pre)
  then show ?case by simp
qed

lemma error_text_has_name:
  "str_contains (''Error executing '' @ name @ '': '' @ m) name"
  by (rule str_contains_mid)

lemma missing_get_database:
  "find (\<lambda>k. arguments k = None) [''database_id''] = Some k' \<Longrightarrow>
   call_tool_body lib fuel net c ''notion_get_database'' arguments = raised (KeyError k')"
  by (simp add: call_tool_body_def arg_item_def split: if_splits)

lemma missing_query_database:
  "find (\<lambda>k. arguments k = None) [''database_id''] = Some k' \<Longrightarrow>
   call_tool_body lib fuel net c ''notion_query_database'' arguments = raised (KeyError k')"
  by (simp add: call_tool_body_def arg_item_def split: if_splits)

lemma missing_create_database:
  "find (\<lambda>k. arguments k = None) [''parent_page_id'', ''title'', ''properties''] = Some k' \<Longrightarrow>
   call_tool_body lib fuel net c ''notion_create_database'' arguments = raised (KeyError k')"
  by (auto simp add: call_tool_body_def arg_item_def split: if_splits)

lemma missing_get_page:
  "find (\<lambda>k. arguments k = None) [''page_id''] = Some k' \<Longrightarrow>
   call_tool_body lib fuel net c ''notion_get_page'' arguments = raised (KeyError k')"
  by (simp add: call_tool_body_def arg_item_def split: if_splits)

lemma missing_create_page:
  "find (\<lambda>k. arguments k = None) [''parent_type'', ''parent_id'', ''properties''] = Some k' \<Longrightarrow>
   call_tool_body lib fuel net c ''notion_create_page'' arguments = raised (KeyError k')"
  by (auto simp add: call_tool_body_def arg_item_def split: if_splits)

lemma missing_update_page:
  "find (\<lambda>k. arguments k = None) [''page_id'', ''properties''] = Some k' \<Longrightarrow>
   call_tool_body lib fuel net c ''notion_update_page'' arguments = raised (KeyError k')"
  by (auto simp add: call_tool_body_def arg_item_def split: if_splits)

lemma missing_get_block_children:
  "find (\<lambda>k. arguments k = None) [''block_id''] = Some k' \<Longrightarrow>
   call_tool_body lib fuel net c ''notion_get_block_children'' arguments = raised (KeyError k')"
  by (simp add: call_tool_body_def arg_item_def split: if_splits)

lemma missing_append_blocks:
  "find (\<lambda>k. arguments k = None) [''block_id'', ''children''] = Some k' \<Longrightarrow>
   call_tool_body lib fuel net c ''notion_append_blocks'' arguments = raised (KeyError k')"
  by (auto simp add: call_tool_body_def arg_item_def split: if_splits)


lemma registered_tools:
  "map (\<lambda>t. (tool_name t, required t)) handle_list_tools =
     [(''notion_search'', []),
      (''notion_get_database'', [''database_id'']),
      (''notion_query_database'', [''database_id'']),
      (''notion_create_database'', [''parent_page_id'', ''title'', ''properties'']),
      (''notion_get_page'', [''page_id'']),
      (''notion_create_page'', [''parent_type'', ''parent_id'', ''properties'']),
      (''notion_update_page'', [''page_id'', ''properties'']),
      (''notion_get_block_children'', [''block_id'']),
      (''notion_append_blocks'', [''block_id'', ''children'']),
      (''notion_get_current_user'', [])]"
  by (simp add: handle_list_tools_def)

lemma body_missing_pair:
  assumes "(name, req) \<in> set [(''notion_search'', []),
      (''notion_get_database'', [''database_id'']),
      (''notion_query_database'', [''database_id'']),
      (''notion_create_database'', [''parent_page_id'', ''title'', ''properties'']),
      (''notion_get_page'', [''page_id'']),
      (''notion_create_page'', [''parent_type'', ''parent_id'', ''properties'']),
      (''notion_update_page'', [''page_id'', ''properties'']),
      (''notion_get_block_children'', [''block_id'']),
      (''notion_append_blocks'', [''block_id'', ''children'']),
      (''notion_get_current_user'', [])]"
    and f: "find (\<lambda>k. arguments k = None) req = Some k'"
  shows "call_tool_body lib fuel net c name arguments = raised (KeyError k')"
proof -
  have "name = ''notion_search'' \<and> req = []
      \<or> name = ''notion_get_database'' \<and> req = [''database_id'']
      \<or> name = ''notion_query_database'' \<and> req = [''database_id'']
      \<or> name = ''notion_create_database'' \<and> req = [''parent_page_id'', ''title'', ''properties'']
      \<or> name = ''notion_get_page'' \<and> req = [''page_id'']
      \<or> name = ''notion_create_page'' \<and> req = [''parent_type'', ''parent_id'', ''properties'']
      \<or> name = ''notion_update_page'' \<and> req = [''page_id'', ''properties'']
      \<or> name = ''notion_get_block_children'' \<and> req = [''block_id'']
      \<or> name = ''notion_append_blocks'' \<and> req = [''block_id'', ''children'']
      \<or> name = ''notion_get_current_user'' \<and> req = []"
    using assms(1) by (simp only: list.set insert_iff empty_iff prod.inject simp_thms)
  then show ?thesis
    using f
    apply (elim disjE conjE)
    subgoal by simp
    subgoal by (simp only: missing_get_database)
    subgoal by (simp only: missing_query_database)
    subgoal by (simp only: missing_create_database)
    subgoal by (simp only: missing_get_page)
    subgoal by (simp only: missing_create_page)
    subgoal by (simp only: missing_update_page)
    subgoal by (simp only: missing_get_block_children)
    subgoal by (simp only: missing_append_blocks)
    subgoal by simp
    done
qed

lemma body_missing:
  assumes t: "t \<in> set handle_list_tools"
    and f: "find (\<lambda>k. arguments k = None) (required t) = Some k'"
  shows "call_tool_body lib fuel net c (tool_name t) arguments = raised (KeyError k')"
proof -
  have "(tool_name t, required t) \<in> set (map (\<lambda>t. (tool_name t, required t)) handle_list_tools)"
    using t by (simp add: image_iff) blast
  then show ?thesis
    unfolding registered_tools using f by (rule body_missing_pair)
qed


text \<open>
  Claim C5, amended: for every registered tool, a call that lacks one of the tool's required
  arguments never raises and sends nothing. With an initialised client the result is the
  text \<open>Error executing name: 'key'\<close>, where \<open>key\<close> is the first required argument that
  is absent, and that text contains the tool's name; with no client it is the fixed text
  \<open>Error: Notion client not initialized\<close>.
\<close>

theorem missing_required_argument:
  assumes t: "t \<in> set handle_list_tools"
    and k: "k \<in> set (required t)"
    and miss: "arguments k = None"
  shows "\<exists>k'. find (\<lambda>k. arguments k = None) (required t) = Some k'
     \<and> handle_call_tool lib fuel net client (tool_name t) arguments
        = (Some (Inr [TextContent
             (case client of
                None \<Rightarrow> ''Error: Notion client not initialized''
              | Some c \<Rightarrow> ''Error executing '' @ tool_name t @ '': '' @ str_exn (KeyError k'))]), [])
     \<and> str_contains (''Error executing '' @ tool_name t @ '': '' @ str_exn (KeyError k'))
          (tool_name t)"
proof -
  have "find (\<lambda>k. arguments k = None) (required t) \<noteq> None"
    using k miss by (auto simp add: find_None_iff)
  then obtain k' where f: "find (\<lambda>k. arguments k = None) (required t) = Some k'"
    by blast
  have body: "\<And>c. call_tool_body lib fuel net c (tool_name t) arguments = raised (KeyError k')"
    by (rule body_missing [OF t f])
  have "handle_call_tool lib fuel net client (tool_name t) arguments
        = (Some (Inr [TextContent
             (case client of
                None \<Rightarrow> ''Error: Notion client not initialized''
              | Some c \<Rightarrow> ''Error executing '' @ tool_name t @ '': '' @ str_exn (KeyError k'))]), [])"
    by (cases client) (simp_all add: handle_call_tool_def body raised_def)
  moreover have "str_contains (''Error executing '' @ tool_name t @ '': '' @ str_exn (KeyError k'))
          (tool_name t)"
    by (rule error_text_has_name)
  ultimately show ?thesis using f by blast
qed

theorem missing_required_argument_witness:
  "\<lparr>tool_name = ''notion_get_database'', tool_properties = [''database_id''],
     required = [''database_id'']\<rparr> \<in> set handle_list_tools
   \<and> no_arguments ''database_id'' = None
   \<and> handle_call_tool example_lib 3 network_down (Some example_client)
        ''notion_get_database'' no_arguments
       = (Some (Inr [TextContent (''Error executing notion_get_database: ''
            @ [CHR 0x27] @ ''database_id'' @ [CHR 0x27])]), [])
   \<and> str_contains (''Error executing notion_get_database: ''
            @ [CHR 0x27] @ ''database_id'' @ [CHR 0x27]) ''notion_get_database''"
proof -
  have mem: "\<lparr>tool_name = ''notion_get_database'', tool_properties = [''database_id''],
     required = [''database_id'']\<rparr> \<in> set handle_list_tools"
    by (simp add: handle_list_tools_def)
  have miss: "no_arguments ''database_id'' = None"
    by (simp add: no_arguments_def)
  show ?thesis
    using mem miss missing_required_argument
        [where t = "\<lparr>tool_name = ''notion_get_database'', tool_properties = [''database_id''],
                      required = [''database_id'']\<rparr>"
           and k = "''database_id''" and arguments = no_arguments and lib = example_lib
           and fuel = 3 and net = network_down and client = "Some example_client"]
    by (simp add: no_arguments_def)
qed

text \<open>
  Claim C5, as stated, fails when the client was never initialised: the guard at the top of
  \<open>handle_call_tool\<close> answers before the arguments are looked at, and its text does not
  contain the tool's name.
\<close>

theorem uninitialized_client_text:
  "no_arguments ''database_id'' = None
   \<and> handle_call_tool example_lib 3 network_down None ''notion_get_database'' no_arguments
       = (Some (Inr [TextContent ''Error: Notion client not initialized'']), [])
   \<and> \<not> str_contains ''Error: Notion client not initialized'' ''notion_get_database''"
  by (simp add: handle_call_tool_def no_arguments_def)

section \<open>Credential resolution\<close>

text \<open>
  Claim C8 says that a broker response without an access token makes the construction fail
  with \<open>NotionAuthError\<close>. When the response has a \<open>credentials\<close> object without
  \<open>access_token\<close>, \<open>_get_nango_token\<close> returns what \<open>.get('access_token')\<close> returns,
  that is \<open>None\<close>: the client is built with \<open>auth_token = None\<close> and the header
  \<open>Authorization: Bearer None\<close>.
\<close>

theorem token_less_client:
  "NotionClient example_lib nango_env broker_without_token JNull ''2022-06-28''
      (JStr ''conn'') (JStr ''notion'')
     = (Inr (new_client example_lib ''2022-06-28'' (JStr ''conn'') (JStr ''notion'') JNull),
        [Http broker_request])
   \<and> auth_token (new_client example_lib ''2022-06-28'' (JStr ''conn'') (JStr ''notion'') JNull)
       = JNull
   \<and> client_headers (new_client example_lib ''2022-06-28'' (JStr ''conn'') (JStr ''notion'') JNull)
       = [(''Authorization'', ''Bearer None''), (''Notion-Version'', ''2022-06-28''),
          (''Content-Type'', ''application/json'')]"
  by (simp add: NotionClient_def py_or_def get_nango_token_def get_connection_credentials_def
      os_environ_get_def nango_env_def broker_without_token_def http_response_def
      raise_for_status_def token_of_credentials_def broker_request_def new_client_def Let_def)

text \<open>
  Claim C9: when no static token is given and the connection id and the provider config key
  (each taken from the argument or else from its environment variable) are not both there,
  the construction fails with \<open>NotionAuthError\<close>, and the trace is empty: the broker was
  not called.
\<close>

theorem no_credentials_no_network:
  assumes "\<not> truthy token"
    and "\<not> (truthy (py_or connection_id (os_environ_get env ''NANGO_CONNECTION_ID''))
           \<and> truthy (py_or provider_config_key (os_environ_get env ''NANGO_INTEGRATION_ID'')))"
  shows "NotionClient lib env broker token version connection_id provider_config_key
     = (Inl (NotionAuthError
          ''Either auth_token or both nango_connection_id and nango_provider_config_key must be provided''),
        [])"
  using assms by (auto simp add: NotionClient_def Let_def)

theorem no_credentials_no_network_witness:
  "\<not> truthy JNull
   \<and> \<not> (truthy (py_or (JStr ''conn'') (os_environ_get empty_env ''NANGO_CONNECTION_ID''))
        \<and> truthy (py_or JNull (os_environ_get empty_env ''NANGO_INTEGRATION_ID'')))
   \<and> NotionClient example_lib empty_env broker_without_token JNull ''2022-06-28''
        (JStr ''conn'') JNull
       = (Inl (NotionAuthError
            ''Either auth_token or both nango_connection_id and nango_provider_config_key must be provided''),
          [])"
  using no_credentials_no_network [of JNull "JStr ''conn''" empty_env JNull example_lib
      broker_without_token "''2022-06-28''"]
  by (simp add: py_or_def os_environ_get_def empty_env_def)

end
